theory Spec2Isabelle
  imports Complex_Main
begin

section \<open>Numbers, rows and the two stores of backend/database.js\<close>

text \<open>
  A JavaScript Number that the trade engine holds in a balance, a price, a quantity or a
  total is modelled by an exact rational: the rounding of IEEE doubles is not part of the
  model, and the arguments \<open>price\<close> and \<open>quantity\<close> are finite numbers. The only
  operation of \<open>executeTrade\<close> that leaves the finite numbers is the division by the
  new quantity in the average price (\<open>x / 0\<close> is \<open>NaN\<close> or an infinity in JavaScript), so
  an average price is a \<open>number\<close>: a finite value, or \<open>NonFinite\<close> for \<open>NaN\<close>,
  \<open>Infinity\<close> and \<open>-Infinity\<close> together. Multiplying a non-finite value by a finite
  one, adding a finite one to it or dividing it by a finite one gives a non-finite value
  again, which is what the three operations below say. (SQLite keeps a \<open>NaN\<close> as
  \<open>NULL\<close>; the properties of the SQLite branch below read finite averages only.)
\<close>

datatype number = Finite rat | NonFinite

definition num_times :: "rat \<Rightarrow> number \<Rightarrow> number" where
  "num_times q x = (case x of Finite a \<Rightarrow> Finite (q * a) | NonFinite \<Rightarrow> NonFinite)"

definition num_plus :: "number \<Rightarrow> rat \<Rightarrow> number" where
  "num_plus x t = (case x of Finite a \<Rightarrow> Finite (a + t) | NonFinite \<Rightarrow> NonFinite)"

definition num_divide :: "number \<Rightarrow> rat \<Rightarrow> number" where
  "num_divide x d =
     (case x of
        Finite a \<Rightarrow> (if d = 0 then NonFinite else Finite (a / d))
      | NonFinite \<Rightarrow> NonFinite)"

text \<open>
  The objects of \<open>memoryStore\<close> and the rows of the three SQLite tables have the same
  fields. The source's field names are prefixed by the record they belong to
  (\<open>u_id\<close> is \<open>id\<close> of a user, \<open>p_quantity\<close> is \<open>quantity\<close> of a portfolio entry,
  \<open>t_type\<close> is \<open>type\<close> of a transaction). Timestamps and password hashes are strings
  that the callers of the model supply: \<open>new Date().toISOString()\<close> and
  \<open>bcrypt.hashSync\<close> are not functions of the program state.
\<close>

record user =
  u_id :: nat
  u_username :: string
  u_password :: string
  u_balance :: rat
  u_created_at :: string

record position =
  p_user_id :: nat
  p_symbol :: string
  p_quantity :: rat
  p_average_price :: number
  p_updated_at :: string

record transaction =
  t_id :: nat
  t_user_id :: nat
  t_symbol :: string
  t_type :: string
  t_price :: rat
  t_quantity :: rat
  t_total_amount :: rat
  t_timestamp :: string

text \<open>
  \<^verbatim>\<open>const memoryStore = { users: [], portfolios: {}, transactions: [] };\<close>
  The portfolio object is keyed by the string \<^verbatim>\<open>`${userId}-${symbol}`\<close>.
\<close>

record store =
  users :: "user list"
  portfolios :: "string \<rightharpoonup> position"
  transactions :: "transaction list"

definition empty_store :: store where
  "empty_store = \<lparr>users = [], portfolios = Map.empty, transactions = []\<rparr>"

text \<open>The decimal rendering of a user id inside the template string.\<close>

definition digit :: "nat \<Rightarrow> char" where
  "digit d = ''0123456789'' ! d"

fun string_of_nat :: "nat \<Rightarrow> string" where
  "string_of_nat n =
     (if n < 10 then [digit n] else string_of_nat (n div 10) @ [digit (n mod 10)])"

declare string_of_nat.simps [simp del]

definition key :: "nat \<Rightarrow> string \<Rightarrow> string" where
  "key userId symbol = string_of_nat userId @ ''-'' @ symbol"

text \<open>
  \<open>users.find(u => u.id === userId)\<close> returns the first user object with that id, and
  the assignments to \<open>user.balance\<close> change that object inside the array.
\<close>

fun update_first :: "('a \<Rightarrow> bool) \<Rightarrow> ('a \<Rightarrow> 'a) \<Rightarrow> 'a list \<Rightarrow> 'a list" where
  "update_first P f [] = []"
| "update_first P f (x # xs) = (if P x then f x # xs else x # update_first P f xs)"

datatype error = UserNotFound | InsufficientFunds | InsufficientHoldings | StorageError

record trade_result =
  r_success :: bool
  r_balance :: rat
  r_transaction :: "transaction option"

section \<open>The transient backend\<close>

text \<open>
  \<^verbatim>\<open>
  const initMemoryData = () => {
    const passHash = bcrypt.hashSync('password123', 10);
    memoryStore.users.push({
      id: 1, username: 'demo', password: passHash, balance: 100000.00,
      created_at: new Date().toISOString() });
  };\<close>
\<close>

definition initMemoryData :: "string \<Rightarrow> string \<Rightarrow> store \<Rightarrow> store" where
  "initMemoryData passHash now m =
     m\<lparr>users := users m @
        [\<lparr>u_id = 1, u_username = ''demo'', u_password = passHash, u_balance = 100000,
          u_created_at = now\<rparr>]\<rparr>"


definition createUser_memory :: "string \<Rightarrow> string \<Rightarrow> string \<Rightarrow> store \<Rightarrow> user \<times> store" where
  "createUser_memory username hash now m =
     (let newUser = \<lparr>u_id = length (users m) + 1, u_username = username, u_password = hash,
                     u_balance = 100000, u_created_at = now\<rparr>
      in (newUser, m\<lparr>users := users m @ [newUser]\<rparr>))"

text \<open>
  The branch \<open>if (useMemory)\<close> of \<open>executeTrade\<close>. A \<open>throw\<close> is the result \<open>Inl\<close>,
  with the store as it is at that point; every \<open>type\<close> other than \<open>'BUY'\<close> takes the
  \<open>else\<close> branch, the sale.
\<close>

definition executeTrade_memory ::
  "string \<Rightarrow> nat \<Rightarrow> string \<Rightarrow> string \<Rightarrow> rat \<Rightarrow> rat \<Rightarrow> store \<Rightarrow> (error + trade_result) \<times> store" where
  "executeTrade_memory now userId symbol type price quantity m =
     (let total = price * quantity in
      case find (\<lambda>u. u_id u = userId) (users m) of
        None \<Rightarrow> (Inl UserNotFound, m)
      | Some user \<Rightarrow>
          if type = ''BUY'' then
            if u_balance user < total then (Inl InsufficientFunds, m)
            else
              let balance' = u_balance user - total;
                  users' = update_first (\<lambda>u. u_id u = userId)
                             (\<lambda>u. u\<lparr>u_balance := u_balance u - total\<rparr>) (users m);
                  k = key userId symbol;
                  p = (case portfolios m k of
                         None \<Rightarrow> \<lparr>p_user_id = userId, p_symbol = symbol, p_quantity = 0,
                                  p_average_price = Finite 0, p_updated_at = now\<rparr>
                       | Some p0 \<Rightarrow> p0);
                  oldTotalVal = num_times (p_quantity p) (p_average_price p);
                  quantity' = p_quantity p + quantity;
                  p' = p\<lparr>p_quantity := quantity',
                         p_average_price := num_divide (num_plus oldTotalVal total) quantity',
                         p_updated_at := now\<rparr>;
                  tx = \<lparr>t_id = length (transactions m) + 1, t_user_id = userId,
                        t_symbol = symbol, t_type = type, t_price = price,
                        t_quantity = quantity, t_total_amount = total, t_timestamp = now\<rparr>
              in (Inr \<lparr>r_success = True, r_balance = balance', r_transaction = Some tx\<rparr>,
                  m\<lparr>users := users', portfolios := (portfolios m)(k \<mapsto> p'),
                    transactions := transactions m @ [tx]\<rparr>)
          else
            let k = key userId symbol in
            case portfolios m k of
              None \<Rightarrow> (Inl InsufficientHoldings, m)
            | Some p \<Rightarrow>
                if p_quantity p < quantity then (Inl InsufficientHoldings, m)
                else
                  let quantity' = p_quantity p - quantity;
                      balance' = u_balance user + total;
                      users' = update_first (\<lambda>u. u_id u = userId)
                                 (\<lambda>u. u\<lparr>u_balance := u_balance u + total\<rparr>) (users m);
                      portfolios' = (if quantity' = 0 then (portfolios m)(k := None)
                                     else (portfolios m)(k \<mapsto>
                                            p\<lparr>p_quantity := quantity', p_updated_at := now\<rparr>));
                      tx = \<lparr>t_id = length (transactions m) + 1, t_user_id = userId,
                            t_symbol = symbol, t_type = type, t_price = price,
                            t_quantity = quantity, t_total_amount = total, t_timestamp = now\<rparr>
                  in (Inr \<lparr>r_success = True, r_balance = balance', r_transaction = Some tx\<rparr>,
                      m\<lparr>users := users', portfolios := portfolios',
                        transactions := transactions m @ [tx]\<rparr>))"

section \<open>The durable backend\<close>

text \<open>
  The three tables of \<open>createTables\<close>. \<open>portfolios\<close> has the primary key
  \<open>(user_id, symbol)\<close>, so it is a map from that pair; \<open>transactions.id\<close> is
  \<open>AUTOINCREMENT\<close>, one more than the largest id given so far, which
  \<open>transactions_seq\<close> holds. A connection is the current content and, while a
  transaction is open, the content at its \<open>BEGIN\<close>.
\<close>

record database =
  users_tbl :: "user list"
  portfolios_tbl :: "nat \<times> string \<rightharpoonup> position"
  transactions_tbl :: "transaction list"
  transactions_seq :: nat

record conn =
  cur :: database
  saved :: "database option"

text \<open>
  The SQL statements that \<open>executeTrade\<close> issues, with their bound parameters in the
  order of the source:
  \<^item> \<open>SelectBalance id\<close>: \<^verbatim>\<open>SELECT balance FROM users WHERE id = ?\<close>
  \<^item> \<open>DebitBalance total id\<close>: \<^verbatim>\<open>UPDATE users SET balance = balance - ? WHERE id = ?\<close>
  \<^item> \<open>CreditBalance total id\<close>: \<^verbatim>\<open>UPDATE users SET balance = balance + ? WHERE id = ?\<close>
  \<^item> \<open>SelectPortfolio id symbol\<close>: \<^verbatim>\<open>SELECT * FROM portfolios WHERE user_id = ? AND symbol = ?\<close>
  \<^item> \<open>UpdatePortfolio newQty newAvg now id symbol\<close>:
    \<^verbatim>\<open>UPDATE portfolios SET quantity = ?, average_price = ?, updated_at = ? WHERE ...\<close>
  \<^item> \<open>InsertPortfolio id symbol quantity price now\<close>: \<^verbatim>\<open>INSERT INTO portfolios ...\<close>
  \<^item> \<open>DeletePortfolio id symbol\<close>: \<^verbatim>\<open>DELETE FROM portfolios WHERE user_id = ? AND symbol = ?\<close>
  \<^item> \<open>UpdateQuantity newQty now id symbol\<close>:
    \<^verbatim>\<open>UPDATE portfolios SET quantity = ?, updated_at = ? WHERE ...\<close>
  \<^item> \<open>InsertTransaction id symbol type price quantity total now\<close>:
    \<^verbatim>\<open>INSERT INTO transactions (user_id, symbol, type, price, quantity, total_amount, timestamp) ...\<close>
\<close>

datatype stmt =
    BEGIN
  | COMMIT
  | ROLLBACK
  | SelectBalance nat
  | DebitBalance rat nat
  | CreditBalance rat nat
  | SelectPortfolio nat string
  | UpdatePortfolio rat number string nat string
  | InsertPortfolio nat string rat rat string
  | DeletePortfolio nat string
  | UpdateQuantity rat string nat string
  | InsertTransaction nat string string rat rat rat string

text \<open>
  What a statement reports to its callback: \<open>err\<close>, or no error and the row of a
  \<open>db.get\<close> if there is one.
\<close>

datatype row = BalanceRow rat | PortfolioRow position

datatype reply = Error | Result "row option"

definition on_cur :: "(database \<Rightarrow> database) \<Rightarrow> conn \<Rightarrow> conn" where
  "on_cur f c = c\<lparr>cur := f (cur c)\<rparr>"

text \<open>
  One statement on the connection. The first argument says that the storage layer fails
  this statement: it then changes nothing and reports an error. Otherwise the statement
  has the effect SQLite gives it: \<open>BEGIN\<close> inside a transaction, \<open>COMMIT\<close> and
  \<open>ROLLBACK\<close> outside one and an \<open>INSERT\<close> on an existing primary key are errors
  without effect, an \<open>UPDATE\<close> or \<open>DELETE\<close> changes the rows its \<open>WHERE\<close> selects,
  \<open>db.get\<close> returns the first row.
\<close>

fun exec :: "bool \<Rightarrow> stmt \<Rightarrow> conn \<Rightarrow> reply \<times> conn" where
  "exec True s c = (Error, c)"
| "exec False BEGIN c =
     (case saved c of None \<Rightarrow> (Result None, c\<lparr>saved := Some (cur c)\<rparr>) | Some d \<Rightarrow> (Error, c))"
| "exec False COMMIT c =
     (case saved c of None \<Rightarrow> (Error, c) | Some d \<Rightarrow> (Result None, c\<lparr>saved := None\<rparr>))"
| "exec False ROLLBACK c =
     (case saved c of None \<Rightarrow> (Error, c) | Some d \<Rightarrow> (Result None, \<lparr>cur = d, saved = None\<rparr>))"
| "exec False (SelectBalance userId) c =
     (Result (map_option (\<lambda>u. BalanceRow (u_balance u))
                (find (\<lambda>u. u_id u = userId) (users_tbl (cur c)))), c)"
| "exec False (DebitBalance amount userId) c =
     (Result None,
      on_cur (\<lambda>d. d\<lparr>users_tbl :=
                map (\<lambda>u. if u_id u = userId then u\<lparr>u_balance := u_balance u - amount\<rparr> else u)
                  (users_tbl d)\<rparr>) c)"
| "exec False (CreditBalance amount userId) c =
     (Result None,
      on_cur (\<lambda>d. d\<lparr>users_tbl :=
                map (\<lambda>u. if u_id u = userId then u\<lparr>u_balance := u_balance u + amount\<rparr> else u)
                  (users_tbl d)\<rparr>) c)"
| "exec False (SelectPortfolio userId symbol) c =
     (Result (map_option PortfolioRow (portfolios_tbl (cur c) (userId, symbol))), c)"
| "exec False (UpdatePortfolio newQty newAvg now userId symbol) c =
     (Result None,
      on_cur (\<lambda>d. case portfolios_tbl d (userId, symbol) of
                None \<Rightarrow> d
              | Some pf \<Rightarrow> d\<lparr>portfolios_tbl := (portfolios_tbl d)((userId, symbol) \<mapsto>
                    pf\<lparr>p_quantity := newQty, p_average_price := newAvg,
                       p_updated_at := now\<rparr>)\<rparr>) c)"
| "exec False (InsertPortfolio userId symbol quantity price now) c =
     (case portfolios_tbl (cur c) (userId, symbol) of
        Some pf \<Rightarrow> (Error, c)
      | None \<Rightarrow>
          (Result None,
           on_cur (\<lambda>d. d\<lparr>portfolios_tbl := (portfolios_tbl d)((userId, symbol) \<mapsto>
                     \<lparr>p_user_id = userId, p_symbol = symbol, p_quantity = quantity,
                      p_average_price = Finite price, p_updated_at = now\<rparr>)\<rparr>) c))"
| "exec False (DeletePortfolio userId symbol) c =
     (Result None,
      on_cur (\<lambda>d. d\<lparr>portfolios_tbl := (portfolios_tbl d)((userId, symbol) := None)\<rparr>) c)"
| "exec False (UpdateQuantity newQty now userId symbol) c =
     (Result None,
      on_cur (\<lambda>d. case portfolios_tbl d (userId, symbol) of
                None \<Rightarrow> d
              | Some pf \<Rightarrow> d\<lparr>portfolios_tbl := (portfolios_tbl d)((userId, symbol) \<mapsto>
                    pf\<lparr>p_quantity := newQty, p_updated_at := now\<rparr>)\<rparr>) c)"
| "exec False (InsertTransaction userId symbol type price quantity amount now) c =
     (Result None,
      on_cur (\<lambda>d. d\<lparr>transactions_tbl := transactions_tbl d @
                  [\<lparr>t_id = transactions_seq d + 1, t_user_id = userId, t_symbol = symbol,
                    t_type = type, t_price = price, t_quantity = quantity,
                    t_total_amount = amount, t_timestamp = now\<rparr>],
                transactions_seq := transactions_seq d + 1\<rparr>) c)"

text \<open>
  The callbacks of the SQLite branch of \<open>executeTrade\<close>, named after what they wait for:
  \<^item> \<open>NoCallback\<close>: a \<open>db.run\<close> without a callback (its error is not looked at);
  \<^item> \<open>CheckUser\<close>: the \<open>db.get\<close> of \<open>checkUser\<close> with the \<open>then\<close> and \<open>catch\<close> of
    that promise;
  \<^item> \<open>BuyPortfolio\<close>, \<open>SellPortfolio\<close>: the \<open>db.get\<close> on \<open>portfolios\<close> of each side;
  \<^item> \<open>TxInserted\<close>: the callback of the \<open>INSERT INTO transactions\<close>;
  \<^item> \<open>FinalBalance\<close>: the last \<open>db.get\<close>, which resolves the promise.
\<close>

datatype callback =
  NoCallback | CheckUser | BuyPortfolio | SellPortfolio | TxInserted | FinalBalance

text \<open>The variables of one call of \<open>executeTrade\<close> that its callbacks close over.\<close>

record call =
  c_userId :: nat
  c_symbol :: string
  c_type :: string
  c_price :: rat
  c_quantity :: rat
  c_total :: rat
  c_now :: string

definition insert_tx :: "call \<Rightarrow> stmt" where
  "insert_tx v = InsertTransaction (c_userId v) (c_symbol v) (c_type v) (c_price v)
                   (c_quantity v) (c_total v) (c_now v)"

text \<open>
  A callback, given the reply to its statement, schedules further statements and may
  settle the promise of \<open>executeTrade\<close> (\<open>Inl\<close> is \<open>reject\<close>, \<open>Inr\<close> is \<open>resolve\<close>).
  The \<open>throw err\<close> inside the callback of the purchase's \<open>db.get\<close> is not caught by
  the promise chain: that callback then schedules nothing.
\<close>

fun handler ::
  "call \<Rightarrow> callback \<Rightarrow> reply \<Rightarrow> (stmt \<times> callback) list \<times> (error + trade_result) option" where
  "handler v NoCallback r = ([], None)"
| "handler v CheckUser r =
     (case r of
        Result (Some (BalanceRow balance)) \<Rightarrow>
          if c_type v = ''BUY'' then
            if balance < c_total v then
              ([(ROLLBACK, NoCallback)], Some (Inl InsufficientFunds))
            else
              ([(DebitBalance (c_total v) (c_userId v), NoCallback),
                (SelectPortfolio (c_userId v) (c_symbol v), BuyPortfolio),
                (insert_tx v, TxInserted)], None)
          else
            ([(SelectPortfolio (c_userId v) (c_symbol v), SellPortfolio),
              (insert_tx v, TxInserted)], None)
      | _ \<Rightarrow> ([(ROLLBACK, NoCallback)], Some (Inl UserNotFound)))"
| "handler v BuyPortfolio r =
     (case r of
        Result (Some (PortfolioRow pf)) \<Rightarrow>
          (let newQty = p_quantity pf + c_quantity v;
               newAvg = num_divide
                          (num_plus (num_times (p_quantity pf) (p_average_price pf)) (c_total v))
                          newQty
           in ([(UpdatePortfolio newQty newAvg (c_now v) (c_userId v) (c_symbol v),
                 NoCallback)], None))
      | Result None \<Rightarrow>
          ([(InsertPortfolio (c_userId v) (c_symbol v) (c_quantity v) (c_price v) (c_now v),
             NoCallback)], None)
      | _ \<Rightarrow> ([], None))"
| "handler v SellPortfolio r =
     (case r of
        Result (Some (PortfolioRow pf)) \<Rightarrow>
          if p_quantity pf < c_quantity v then
            ([(ROLLBACK, NoCallback)], Some (Inl InsufficientHoldings))
          else
            (let newQty = p_quantity pf - c_quantity v
             in ([(CreditBalance (c_total v) (c_userId v), NoCallback),
                  (if newQty = 0 then DeletePortfolio (c_userId v) (c_symbol v)
                   else UpdateQuantity newQty (c_now v) (c_userId v) (c_symbol v),
                   NoCallback)], None))
      | Result None \<Rightarrow> ([(ROLLBACK, NoCallback)], Some (Inl InsufficientHoldings))
      | _ \<Rightarrow> ([(ROLLBACK, NoCallback)], Some (Inl StorageError)))"
| "handler v TxInserted r =
     (case r of
        Error \<Rightarrow> ([(ROLLBACK, NoCallback)], Some (Inl StorageError))
      | Result x \<Rightarrow>
          ([(COMMIT, NoCallback), (SelectBalance (c_userId v), FinalBalance)], None))"
| "handler v FinalBalance r =
     ([], Some (Inr \<lparr>r_success = True,
                     r_balance = (case r of Result (Some (BalanceRow balance)) \<Rightarrow> balance
                                  | _ \<Rightarrow> 0),
                     r_transaction = None\<rparr>))"

text \<open>
  The connection runs the scheduled statements one at a time in the order in which they
  were scheduled, and each callback runs when its statement is done: the order that the
  source counts on. Only the first two statements are scheduled inside \<open>db.serialize\<close>;
  for the later ones the sqlite3 binding promises no order, and the orders in which a
  later statement overtakes an earlier one are not part of this model. \<open>fails k\<close> says
  that the storage layer fails the statement that callback \<open>k\<close> waits for; statements
  without a callback are not failed. A promise is settled once: later calls of
  \<open>resolve\<close> and \<open>reject\<close> do nothing.
\<close>

fun weight :: "callback \<Rightarrow> nat" where
  "weight NoCallback = 1"
| "weight FinalBalance = 1"
| "weight BuyPortfolio = 2"
| "weight SellPortfolio = 3"
| "weight TxInserted = 3"
| "weight CheckUser = 7"

function run ::
  "(callback \<Rightarrow> bool) \<Rightarrow> call \<Rightarrow> (stmt \<times> callback) list \<Rightarrow> conn \<Rightarrow>
   (error + trade_result) option \<Rightarrow> (error + trade_result) option \<times> conn" where
  "run fails v [] c outcome = (outcome, c)"
| "run fails v ((s, k) # queue) c outcome =
     (let (r, c') = exec (k \<noteq> NoCallback \<and> fails k) s c;
          (scheduled, settled) = handler v k r
      in run fails v (queue @ scheduled) c'
           (case outcome of None \<Rightarrow> settled | Some x \<Rightarrow> Some x))"
  by pat_completeness auto
termination
  apply (relation "measure (\<lambda>(fails, v, queue, c, outcome). sum_list (map (weight \<circ> snd) queue))")
   apply simp
  subgoal for fails v s k queue c outcome x r c' y scheduled settled
    by (cases k) (auto simp: Let_def split: reply.splits option.splits row.splits if_splits)
  done

text \<open>
  The SQLite branch of \<open>executeTrade\<close>: inside \<open>db.serialize\<close> it schedules
  \<open>BEGIN TRANSACTION\<close> and the \<open>db.get\<close> of \<open>checkUser\<close>; the result is how the
  promise is settled when nothing is left to run (\<open>None\<close>: it never is).
\<close>

definition executeTrade_sqlite ::
  "(callback \<Rightarrow> bool) \<Rightarrow> string \<Rightarrow> nat \<Rightarrow> string \<Rightarrow> string \<Rightarrow> rat \<Rightarrow> rat \<Rightarrow> conn \<Rightarrow>
   (error + trade_result) option \<times> conn" where
  "executeTrade_sqlite fails now userId symbol type price quantity c =
     run fails
       \<lparr>c_userId = userId, c_symbol = symbol, c_type = type, c_price = price,
        c_quantity = quantity, c_total = price * quantity, c_now = now\<rparr>
       [(BEGIN, NoCallback), (SelectBalance userId, CheckUser)] c None"

section \<open>The module state and \<open>executeTrade\<close>\<close>

text \<open>
  \<^verbatim>\<open>let db = null; let useMemory = false; const memoryStore = {...};\<close>
\<close>

record state =
  useMemory :: bool
  memoryStore :: store
  db :: conn

definition executeTrade ::
  "(callback \<Rightarrow> bool) \<Rightarrow> string \<Rightarrow> nat \<Rightarrow> string \<Rightarrow> string \<Rightarrow> rat \<Rightarrow> rat \<Rightarrow> state \<Rightarrow>
   (error + trade_result) option \<times> state" where
  "executeTrade fails now userId symbol type price quantity st =
     (if useMemory st then
        (let (res, m') = executeTrade_memory now userId symbol type price quantity
                           (memoryStore st)
         in (Some res, st\<lparr>memoryStore := m'\<rparr>))
      else
        (let (res, c') = executeTrade_sqlite fails now userId symbol type price quantity
                           (db st)
         in (res, st\<lparr>db := c'\<rparr>)))"

text \<open>
  What the two branches of the read paths give for one account: the \<open>balance\<close> of
  \<open>getUserById(userId)\<close>, the portfolio entry that \<open>executeTrade\<close> reads for
  \<open>(userId, symbol)\<close>, and the transactions in the order in which they were recorded.
\<close>

definition balance_of :: "nat \<Rightarrow> state \<Rightarrow> rat option" where
  "balance_of userId st =
     map_option u_balance
       (find (\<lambda>u. u_id u = userId)
          (if useMemory st then users (memoryStore st) else users_tbl (cur (db st))))"

definition position_of :: "nat \<Rightarrow> string \<Rightarrow> state \<Rightarrow> position option" where
  "position_of userId symbol st =
     (if useMemory st then portfolios (memoryStore st) (key userId symbol)
      else portfolios_tbl (cur (db st)) (userId, symbol))"

definition log_of :: "state \<Rightarrow> transaction list" where
  "log_of st =
     (if useMemory st then transactions (memoryStore st) else transactions_tbl (cur (db st)))"


section \<open>The route \<open>POST /api/trade\<close> of backend/server.js\<close>

text \<open>
  \<^verbatim>\<open>
  let { userId, symbol, type, quantity, price } = req.body;
  userId = userId || 1;
  if (!symbol || !type || !quantity || !price) {
    return res.status(400).json({ success: false, message: ... });
  }
  const result = await db.executeTrade(userId, symbol, type, parseFloat(price),
                                       parseInt(quantity));
  res.json({ success: true, data: result });
  // catch (err): res.status(400).json({ success: false, message: err.message })\<close>
  The body carries numbers for \<open>userId\<close>, \<open>quantity\<close> and \<open>price\<close> and strings for
  \<open>symbol\<close> and \<open>type\<close>, each of them possibly absent (\<open>None\<close>). The built-ins
  \<open>parseFloat\<close> and \<open>parseInt\<close> are parameters.
\<close>

record trade_body =
  b_userId :: "nat option"
  b_symbol :: "string option"
  b_type :: "string option"
  b_quantity :: "rat option"
  b_price :: "rat option"

datatype failure = MissingParameters | TradeFailed error

datatype response = Ok200 trade_result | BadRequest400 failure

definition post_api_trade ::
  "(rat \<Rightarrow> rat) \<Rightarrow> (rat \<Rightarrow> rat) \<Rightarrow> (callback \<Rightarrow> bool) \<Rightarrow> string \<Rightarrow> trade_body \<Rightarrow> state \<Rightarrow>
   response option \<times> state" where
  "post_api_trade parseFloat parseInt fails now body st =
     (let userId = (case b_userId body of None \<Rightarrow> 1 | Some u \<Rightarrow> if u = 0 then 1 else u) in
      case (b_symbol body, b_type body, b_quantity body, b_price body) of
        (Some symbol, Some type, Some quantity, Some price) \<Rightarrow>
          if symbol = [] \<or> type = [] \<or> quantity = 0 \<or> price = 0 then
            (Some (BadRequest400 MissingParameters), st)
          else
            (case executeTrade fails now userId symbol type (parseFloat price)
                    (parseInt quantity) st of
               (Some (Inr result), st') \<Rightarrow> (Some (Ok200 result), st')
             | (Some (Inl err), st') \<Rightarrow> (Some (BadRequest400 (TradeFailed err)), st')
             | (None, st') \<Rightarrow> (None, st'))
      | _ \<Rightarrow> (Some (BadRequest400 MissingParameters), st))"

section \<open>Sequences of calls on the transient store\<close>

record order =
  o_now :: string
  o_userId :: nat
  o_symbol :: string
  o_type :: string
  o_price :: rat
  o_quantity :: rat

definition place :: "order \<Rightarrow> store \<Rightarrow> (error + trade_result) \<times> store" where
  "place ord m =
     executeTrade_memory (o_now ord) (o_userId ord) (o_symbol ord) (o_type ord) (o_price ord)
       (o_quantity ord) m"

text \<open>A sequence of trades that are all committed: \<open>None\<close> as soon as one is rejected.\<close>

fun commit_all :: "store \<Rightarrow> order list \<Rightarrow> store option" where
  "commit_all m [] = Some m"
| "commit_all m (ord # ords) =
     (case place ord m of (Inl e, m') \<Rightarrow> None | (Inr r, m') \<Rightarrow> commit_all m' ords)"




section \<open>Replaying a transaction log\<close>










section \<open>Example states\<close>

text \<open>
  The module state that \<open>initDatabase\<close> leaves on a new installation: with the demo
  account in \<open>memoryStore\<close> when SQLite could not be opened, with the demo row in the
  \<open>users\<close> table otherwise.
\<close>

definition demo :: user where
  "demo = \<lparr>u_id = 1, u_username = ''demo'', u_password = ''hash'', u_balance = 100000,
           u_created_at = ''t0''\<rparr>"

definition empty_conn :: conn where
  "empty_conn = \<lparr>cur = \<lparr>users_tbl = [], portfolios_tbl = Map.empty, transactions_tbl = [],
                         transactions_seq = 0\<rparr>, saved = None\<rparr>"

definition demo_store :: store where
  "demo_store = initMemoryData ''hash'' ''t0'' empty_store"

definition demo_transient :: state where
  "demo_transient = \<lparr>useMemory = True, memoryStore = demo_store, db = empty_conn\<rparr>"

definition demo_durable :: state where
  "demo_durable =
     \<lparr>useMemory = False, memoryStore = empty_store,
      db = \<lparr>cur = \<lparr>users_tbl = [demo], portfolios_tbl = Map.empty, transactions_tbl = [],
                   transactions_seq = 0\<rparr>, saved = None\<rparr>\<rparr>"



text \<open>
  A storage layer that fails no statement, one that fails the \<open>INSERT\<close> of the
  transaction record, and one that fails the \<open>SELECT\<close> on \<open>portfolios\<close> of a
  purchase.
\<close>

definition no_faults :: "callback \<Rightarrow> bool" where
  "no_faults k = False"


definition portfolio_read_fails :: "callback \<Rightarrow> bool" where
  "portfolio_read_fails k = (k = BuyPortfolio)"

section \<open>Facts about the helpers\<close>

lemma string_of_nat_1: "string_of_nat 1 = ''1''"
  by (simp add: string_of_nat.simps digit_def)

lemma string_of_nat_Suc_0: "string_of_nat (Suc 0) = ''1''"
  using string_of_nat_1 by simp

lemmas eval_defs =
  executeTrade_def executeTrade_memory_def executeTrade_sqlite_def
  balance_of_def position_of_def log_of_def
  demo_transient_def demo_durable_def demo_store_def demo_def empty_conn_def empty_store_def
  initMemoryData_def on_cur_def insert_tx_def key_def string_of_nat_1 string_of_nat_Suc_0
  num_times_def num_plus_def num_divide_def no_faults_def Let_def


lemma find_update_first_other:
  "(\<And>x. Q (f x) = Q x) \<Longrightarrow> (\<And>x. P x \<Longrightarrow> \<not> Q x)
   \<Longrightarrow> find Q (update_first P f xs) = find Q xs"
  by (induction xs) auto


section \<open>Rejected trades\<close>



text \<open>The promise of the SQLite branch is always settled, and no transaction stays open.\<close>

lemma executeTrade_sqlite_settles:
  "fst (executeTrade_sqlite fails now userId symbol type price quantity c) \<noteq> None"
  by (cases "fails CheckUser"; cases "fails BuyPortfolio"; cases "fails SellPortfolio";
      cases "fails TxInserted"; cases "fails FinalBalance")
     (auto simp: executeTrade_sqlite_def on_cur_def insert_tx_def Let_def
           split: option.splits if_splits)

lemma executeTrade_sqlite_closes:
  "saved c = None
   \<Longrightarrow> saved (snd (executeTrade_sqlite fails now userId symbol type price quantity c)) = None"
  by (cases "fails CheckUser"; cases "fails BuyPortfolio"; cases "fails SellPortfolio";
      cases "fails TxInserted"; cases "fails FinalBalance")
     (auto simp: executeTrade_sqlite_def on_cur_def insert_tx_def Let_def
           split: option.splits if_splits)



text \<open>
  The theorem is about rejected calls. A call that is resolved need not have made all of
  its changes: when the storage layer fails the \<open>SELECT\<close> on \<open>portfolios\<close> of a
  purchase, the callback throws outside the promise, the transaction record is inserted
  and committed with the debit, and no position is written.
\<close>

lemma failed_portfolio_read_example:
  "fst (executeTrade portfolio_read_fails ''t1'' 1 ''AAPL'' ''BUY'' 100 10 demo_durable)
     = Some (Inr \<lparr>r_success = True, r_balance = 99000, r_transaction = None\<rparr>)"
  "balance_of 1
     (snd (executeTrade portfolio_read_fails ''t1'' 1 ''AAPL'' ''BUY'' 100 10 demo_durable))
     = Some 99000"
  "position_of 1 ''AAPL''
     (snd (executeTrade portfolio_read_fails ''t1'' 1 ''AAPL'' ''BUY'' 100 10 demo_durable))
     = None"
  "map t_total_amount
     (log_of (snd (executeTrade portfolio_read_fails ''t1'' 1 ''AAPL'' ''BUY'' 100 10
                     demo_durable)))
     = [1000]"
  by (simp_all add: eval_defs portfolio_read_fails_def)

section \<open>Insufficient funds\<close>






section \<open>Selling a whole position\<close>






section \<open>The average price of a purchase\<close>

lemma memory_buy_position:
  assumes "executeTrade_memory now userId symbol ''BUY'' price quantity m = (Inr r, m')"
  shows "portfolios m' (key userId symbol) =
           (case portfolios m (key userId symbol) of
              Some p \<Rightarrow>
                Some (p\<lparr>p_quantity := p_quantity p + quantity,
                        p_average_price :=
                          num_divide
                            (num_plus (num_times (p_quantity p) (p_average_price p))
                               (price * quantity))
                            (p_quantity p + quantity),
                        p_updated_at := now\<rparr>)
            | None \<Rightarrow>
                Some \<lparr>p_user_id = userId, p_symbol = symbol, p_quantity = quantity,
                      p_average_price = (if quantity = 0 then NonFinite else Finite price),
                      p_updated_at = now\<rparr>)"
proof (cases "portfolios m (key userId symbol)")
  case None
  with assms show ?thesis
    by (auto simp: executeTrade_memory_def Let_def num_times_def num_plus_def num_divide_def
             split: option.splits if_splits)
next
  case (Some p)
  with assms show ?thesis
    by (auto simp: executeTrade_memory_def Let_def split: option.splits if_splits)
qed

lemma sqlite_buy_existing:
  assumes "executeTrade_sqlite fails now userId symbol ''BUY'' price quantity c
             = (Some (Inr r), c')"
    and "\<not> fails BuyPortfolio"
    and "portfolios_tbl (cur c) (userId, symbol) = Some p"
    and "p_average_price p = Finite a"
  shows "portfolios_tbl (cur c') (userId, symbol) =
           Some (p\<lparr>p_quantity := p_quantity p + quantity,
                   p_average_price :=
                     num_divide (Finite (p_quantity p * a + price * quantity))
                       (p_quantity p + quantity),
                   p_updated_at := now\<rparr>)"
  using assms
  by (cases "fails CheckUser"; cases "fails TxInserted"; cases "fails FinalBalance")
     (auto simp: executeTrade_sqlite_def on_cur_def insert_tx_def Let_def
             num_times_def num_plus_def
           split: option.splits if_splits)

lemma sqlite_buy_new:
  assumes "executeTrade_sqlite fails now userId symbol ''BUY'' price quantity c
             = (Some (Inr r), c')"
    and "\<not> fails BuyPortfolio"
    and "portfolios_tbl (cur c) (userId, symbol) = None"
  shows "portfolios_tbl (cur c') (userId, symbol) =
           Some \<lparr>p_user_id = userId, p_symbol = symbol, p_quantity = quantity,
                 p_average_price = Finite price, p_updated_at = now\<rparr>"
  using assms
  by (cases "fails CheckUser"; cases "fails TxInserted"; cases "fails FinalBalance")
     (auto simp: executeTrade_sqlite_def on_cur_def insert_tx_def Let_def
           split: option.splits if_splits)

text \<open>
  A committed purchase on an existing position of quantity \<open>oldQty\<close> and average price
  \<open>oldAvg\<close> leaves the quantity \<open>oldQty + quantity\<close> and, when that is not zero, the
  average price \<open>(oldQty \<times> oldAvg + price \<times> quantity) / (oldQty + quantity)\<close>, in
  both modes. A committed purchase without a position leaves the requested quantity at
  the average price \<open>price\<close> if the quantity is not zero.
\<close>

lemma purchase_weighted_average:
  assumes "executeTrade fails now userId symbol ''BUY'' price quantity st = (Some (Inr r), st')"
    and "useMemory st \<or> \<not> fails BuyPortfolio"
    and "position_of userId symbol st = Some p"
    and "p_quantity p = oldQty" and "p_average_price p = Finite oldAvg"
    and "oldQty + quantity \<noteq> 0"
  shows "position_of userId symbol st' =
           Some (p\<lparr>p_quantity := oldQty + quantity,
                   p_average_price :=
                     Finite ((oldQty * oldAvg + price * quantity) / (oldQty + quantity)),
                   p_updated_at := now\<rparr>)"
proof (cases "useMemory st")
  case True
  with assms(1) obtain m'
    where "executeTrade_memory now userId symbol ''BUY'' price quantity (memoryStore st)
             = (Inr r, m')" "st' = st\<lparr>memoryStore := m'\<rparr>"
    by (auto simp: executeTrade_def split: prod.splits)
  with memory_buy_position [OF this(1)] True assms(3-6) show ?thesis
    by (simp add: position_of_def num_times_def num_plus_def num_divide_def)
next
  case False
  with assms(1) obtain c'
    where "executeTrade_sqlite fails now userId symbol ''BUY'' price quantity (db st)
             = (Some (Inr r), c')" "st' = st\<lparr>db := c'\<rparr>"
    by (auto simp: executeTrade_def split: prod.splits)
  moreover from assms(3) False have "portfolios_tbl (cur (db st)) (userId, symbol) = Some p"
    by (simp add: position_of_def)
  moreover from assms(2) False have "\<not> fails BuyPortfolio"
    by simp
  ultimately have "portfolios_tbl (cur c') (userId, symbol) =
           Some (p\<lparr>p_quantity := p_quantity p + quantity,
                   p_average_price :=
                     num_divide (Finite (p_quantity p * oldAvg + price * quantity))
                       (p_quantity p + quantity),
                   p_updated_at := now\<rparr>)"
    using assms(5) by (intro sqlite_buy_existing [of fails now userId symbol price quantity "db st" r])
  with \<open>st' = st\<lparr>db := c'\<rparr>\<close> False assms(4,6) show ?thesis
    by (simp add: position_of_def num_divide_def)
qed

lemma purchase_new_position:
  assumes "executeTrade fails now userId symbol ''BUY'' price quantity st = (Some (Inr r), st')"
    and "useMemory st \<or> \<not> fails BuyPortfolio"
    and "position_of userId symbol st = None"
    and "quantity \<noteq> 0"
  shows "position_of userId symbol st' =
           Some \<lparr>p_user_id = userId, p_symbol = symbol, p_quantity = quantity,
                 p_average_price = Finite price, p_updated_at = now\<rparr>"
proof (cases "useMemory st")
  case True
  with assms(1) obtain m'
    where "executeTrade_memory now userId symbol ''BUY'' price quantity (memoryStore st)
             = (Inr r, m')" "st' = st\<lparr>memoryStore := m'\<rparr>"
    by (auto simp: executeTrade_def split: prod.splits)
  with memory_buy_position [OF this(1)] True assms(3,4) show ?thesis
    by (simp add: position_of_def)
next
  case False
  with assms(1) obtain c'
    where "executeTrade_sqlite fails now userId symbol ''BUY'' price quantity (db st)
             = (Some (Inr r), c')" "st' = st\<lparr>db := c'\<rparr>"
    by (auto simp: executeTrade_def split: prod.splits)
  moreover from assms(3) False have "portfolios_tbl (cur (db st)) (userId, symbol) = None"
    by (simp add: position_of_def)
  moreover from assms(2) False have "\<not> fails BuyPortfolio"
    by simp
  ultimately have "portfolios_tbl (cur c') (userId, symbol) =
           Some \<lparr>p_user_id = userId, p_symbol = symbol, p_quantity = quantity,
                 p_average_price = Finite price, p_updated_at = now\<rparr>"
    by (intro sqlite_buy_new [of fails now userId symbol price quantity "db st" r])
  with \<open>st' = st\<lparr>db := c'\<rparr>\<close> False show ?thesis
    by (simp add: position_of_def)
qed

lemma purchase_twice_example:
  "map_option (\<lambda>p. (p_quantity p, p_average_price p))
     (position_of 1 ''AAPL''
        (snd (executeTrade no_faults ''t2'' 1 ''AAPL'' ''BUY'' 200 10
           (snd (executeTrade no_faults ''t1'' 1 ''AAPL'' ''BUY'' 100 10 demo_transient)))))
     = Some (20, Finite 150)"
  "map_option (\<lambda>p. (p_quantity p, p_average_price p))
     (position_of 1 ''AAPL''
        (snd (executeTrade no_faults ''t2'' 1 ''AAPL'' ''BUY'' 200 10
           (snd (executeTrade no_faults ''t1'' 1 ''AAPL'' ''BUY'' 100 10 demo_durable)))))
     = Some (20, Finite 150)"
  by (simp_all add: eval_defs)

text \<open>
  C5. In transient mode a purchase of quantity 0 on a symbol without a position is
  committed and leaves an entry of quantity 0 whose average price is not the price: it is
  \<open>(0 + 10 * 0) / 0\<close>. The SQLite branch inserts the price itself.
\<close>

theorem zero_quantity_purchase_average:
  "position_of 1 ''AAPL'' demo_transient = None
   \<and> fst (executeTrade no_faults ''t1'' 1 ''AAPL'' ''BUY'' 10 0 demo_transient)
     = Some (Inr \<lparr>r_success = True, r_balance = 100000,
                  r_transaction = Some \<lparr>t_id = 1, t_user_id = 1, t_symbol = ''AAPL'',
                    t_type = ''BUY'', t_price = 10, t_quantity = 0, t_total_amount = 0,
                    t_timestamp = ''t1''\<rparr>\<rparr>)
   \<and> position_of 1 ''AAPL''
       (snd (executeTrade no_faults ''t1'' 1 ''AAPL'' ''BUY'' 10 0 demo_transient))
     = Some \<lparr>p_user_id = 1, p_symbol = ''AAPL'', p_quantity = 0, p_average_price = NonFinite,
             p_updated_at = ''t1''\<rparr>
   \<and> position_of 1 ''AAPL''
       (snd (executeTrade no_faults ''t1'' 1 ''AAPL'' ''BUY'' 10 0 demo_durable))
     = Some \<lparr>p_user_id = 1, p_symbol = ''AAPL'', p_quantity = 0, p_average_price = Finite 10,
             p_updated_at = ''t1''\<rparr>"
  by (simp add: eval_defs)

section \<open>The result of a committed trade in the two modes\<close>

lemma memory_result_has_transaction:
  "executeTrade_memory now userId symbol type price quantity m = (Inr r, m')
   \<Longrightarrow> r_transaction r = Some (last (transactions m')) \<and> transactions m' \<noteq> transactions m"
  by (auto simp: executeTrade_memory_def Let_def split: option.splits if_splits)

lemma sqlite_result_has_no_transaction:
  "executeTrade_sqlite fails now userId symbol type price quantity c = (Some (Inr r), c')
   \<Longrightarrow> r_transaction r = None"
  by (cases "fails CheckUser"; cases "fails BuyPortfolio"; cases "fails SellPortfolio";
      cases "fails TxInserted"; cases "fails FinalBalance")
     (auto simp: executeTrade_sqlite_def on_cur_def insert_tx_def Let_def
           split: option.splits if_splits)

text \<open>
  C6. The same purchase on the same account: the transient branch returns the balance
  and the transaction record, the SQLite branch returns the balance and no transaction
  record.
\<close>

theorem durable_result_lacks_transaction:
  "fst (executeTrade no_faults ''t1'' 1 ''AAPL'' ''BUY'' 100 10 demo_transient)
     = Some (Inr \<lparr>r_success = True, r_balance = 99000,
                  r_transaction = Some \<lparr>t_id = 1, t_user_id = 1, t_symbol = ''AAPL'',
                    t_type = ''BUY'', t_price = 100, t_quantity = 10, t_total_amount = 1000,
                    t_timestamp = ''t1''\<rparr>\<rparr>)
   \<and> fst (executeTrade no_faults ''t1'' 1 ''AAPL'' ''BUY'' 100 10 demo_durable)
     = Some (Inr \<lparr>r_success = True, r_balance = 99000, r_transaction = None\<rparr>)
   \<and> log_of (snd (executeTrade no_faults ''t1'' 1 ''AAPL'' ''BUY'' 100 10 demo_durable))
     = [\<lparr>t_id = 1, t_user_id = 1, t_symbol = ''AAPL'', t_type = ''BUY'', t_price = 100,
         t_quantity = 10, t_total_amount = 1000, t_timestamp = ''t1''\<rparr>]"
  by (simp add: eval_defs)

section \<open>The portfolio key\<close>








section \<open>What a committed trade changes in the transient store\<close>



lemma find_distinct:
  "distinct (map g xs) \<Longrightarrow> u \<in> set xs \<Longrightarrow> find (\<lambda>x. g x = g u) xs = Some u"
  by (induction xs) (auto simp: image_iff)

lemma find_Some_mem: "find P xs = Some u \<Longrightarrow> u \<in> set xs \<and> P u"
  by (induction xs) (auto split: if_splits)




lemma place_found:
  "place ord m = (Inr r, m') \<Longrightarrow> \<exists>u. find (\<lambda>u. u_id u = o_userId ord) (users m) = Some u"
  by (auto simp: place_def executeTrade_memory_def Let_def split: option.splits if_splits)

lemma place_users:
  "place ord m = (Inr r, m') \<Longrightarrow>
   users m' = update_first (\<lambda>u. u_id u = o_userId ord)
     (\<lambda>u. u\<lparr>u_balance := (if o_type ord = ''BUY'' then u_balance u - o_price ord * o_quantity ord
                            else u_balance u + o_price ord * o_quantity ord)\<rparr>) (users m)"
  by (auto simp: place_def executeTrade_memory_def Let_def split: option.splits if_splits)

lemma place_other_keys:
  "place ord m = (Inr r, m') \<Longrightarrow> k \<noteq> key (o_userId ord) (o_symbol ord)
   \<Longrightarrow> portfolios m' k = portfolios m k"
  by (auto simp: place_def executeTrade_memory_def Let_def split: option.splits if_splits)


section \<open>Replay of the transaction log\<close>


















section \<open>Validation of quantity and price\<close>

lemma route_rejects_missing:
  assumes "b_quantity body = None \<or> b_quantity body = Some 0
           \<or> b_price body = None \<or> b_price body = Some 0"
  shows "post_api_trade parseFloat parseInt fails now body st
           = (Some (BadRequest400 MissingParameters), st)"
  using assms
  by (auto simp: post_api_trade_def split: option.splits)

text \<open>
  C4. A request with a negative quantity is not rejected: \<open>POST /api/trade\<close> with
  quantity -5 and price 10 on the demo account answers 200, and the purchase is committed
  with a balance of 100050 and a position of -5; a purchase at the price -10 is committed
  as well. Only a quantity or price that is absent or 0 is turned away, by the route.
\<close>

theorem negative_quantity_is_committed:
  "post_api_trade id id no_faults ''t1''
     \<lparr>b_userId = Some 1, b_symbol = Some ''AAPL'', b_type = Some ''BUY'',
      b_quantity = Some (- 5), b_price = Some 10\<rparr> demo_transient
   = (Some (Ok200 \<lparr>r_success = True, r_balance = 100050,
         r_transaction = Some \<lparr>t_id = 1, t_user_id = 1, t_symbol = ''AAPL'', t_type = ''BUY'',
           t_price = 10, t_quantity = - 5, t_total_amount = - 50, t_timestamp = ''t1''\<rparr>\<rparr>),
      \<lparr>useMemory = True,
       memoryStore =
         \<lparr>users = [demo\<lparr>u_balance := 100050\<rparr>],
          portfolios = [''1-AAPL'' \<mapsto> \<lparr>p_user_id = 1, p_symbol = ''AAPL'', p_quantity = - 5,
                          p_average_price = Finite 10, p_updated_at = ''t1''\<rparr>],
          transactions = [\<lparr>t_id = 1, t_user_id = 1, t_symbol = ''AAPL'', t_type = ''BUY'',
                           t_price = 10, t_quantity = - 5, t_total_amount = - 50,
                           t_timestamp = ''t1''\<rparr>]\<rparr>,
       db = empty_conn\<rparr>)
   \<and> fst (executeTrade no_faults ''t1'' 1 ''AAPL'' ''BUY'' 10 (- 5) demo_durable)
     = Some (Inr \<lparr>r_success = True, r_balance = 100050, r_transaction = None\<rparr>)
   \<and> fst (executeTrade no_faults ''t1'' 1 ''AAPL'' ''BUY'' (- 10) 5 demo_transient)
     = Some (Inr \<lparr>r_success = True, r_balance = 100050,
         r_transaction = Some \<lparr>t_id = 1, t_user_id = 1, t_symbol = ''AAPL'', t_type = ''BUY'',
           t_price = - 10, t_quantity = 5, t_total_amount = - 50, t_timestamp = ''t1''\<rparr>\<rparr>)"
  by (simp add: post_api_trade_def eval_defs)

section \<open>Solvency\<close>

lemma set_update_first:
  "find P xs = Some u \<Longrightarrow> set (update_first P f xs) \<subseteq> insert (f u) (set xs)"
  by (induction xs) (auto split: if_splits)

lemma solvency_place:
  assumes "\<forall>u\<in>set (users m). 0 \<le> u_balance u"
    and "place ord m = (Inr r, m')"
    and "o_type ord = ''BUY'' \<or> 0 \<le> o_price ord * o_quantity ord"
  shows "\<forall>u\<in>set (users m'). 0 \<le> u_balance u"
proof -
  let ?f = "\<lambda>u. u\<lparr>u_balance :=
              (if o_type ord = ''BUY'' then u_balance u - o_price ord * o_quantity ord
               else u_balance u + o_price ord * o_quantity ord)\<rparr>"
  from place_found [OF assms(2)] obtain user
    where f: "find (\<lambda>u. u_id u = o_userId ord) (users m) = Some user" ..
  from find_Some_mem [OF f] assms(1) have "0 \<le> u_balance user"
    by simp
  moreover from assms(2) f
  have "o_type ord = ''BUY'' \<Longrightarrow> \<not> u_balance user < o_price ord * o_quantity ord"
    by (auto simp: place_def executeTrade_memory_def Let_def split: if_splits)
  ultimately have "0 \<le> u_balance (?f user)"
    using assms(3) by auto
  moreover have "set (users m') \<subseteq> insert (?f user) (set (users m))"
    unfolding place_users [OF assms(2)] by (rule set_update_first [OF f])
  ultimately show ?thesis
    using assms(1) by blast
qed

lemma solvency_commit_all:
  assumes "\<forall>u\<in>set (users m). 0 \<le> u_balance u"
    and "commit_all m ords = Some m'"
    and "\<forall>ord\<in>set ords. o_type ord = ''BUY'' \<or> 0 \<le> o_price ord * o_quantity ord"
  shows "\<forall>u\<in>set (users m'). 0 \<le> u_balance u"
  using assms
proof (induction ords arbitrary: m)
  case Nil
  then show ?case by simp
next
  case (Cons ord ords)
  from Cons.prems(2) obtain r m1 where c: "place ord m = (Inr r, m1)"
    and rest: "commit_all m1 ords = Some m'"
    by (auto split: prod.splits sum.splits)
  from Cons.prems(1) c Cons.prems(3) have "\<forall>u\<in>set (users m1). 0 \<le> u_balance u"
    by (intro solvency_place [of m ord r m1]) simp_all
  from Cons.IH [OF this rest] Cons.prems(3) show ?case
    by simp
qed

text \<open>
  C2. On the demo account, BUY 1 at 1.00 and then SELL -200000 at 1.00 are both committed,
  in both modes, and leave the balance -100001.
\<close>

theorem negative_sale_overdraws:
  "fst (executeTrade no_faults ''t1'' 1 ''AAPL'' ''BUY'' 1 1 demo_transient)
     = Some (Inr \<lparr>r_success = True, r_balance = 99999,
         r_transaction = Some \<lparr>t_id = 1, t_user_id = 1, t_symbol = ''AAPL'', t_type = ''BUY'',
           t_price = 1, t_quantity = 1, t_total_amount = 1, t_timestamp = ''t1''\<rparr>\<rparr>)
   \<and> fst (executeTrade no_faults ''t2'' 1 ''AAPL'' ''SELL'' 1 (- 200000)
          (snd (executeTrade no_faults ''t1'' 1 ''AAPL'' ''BUY'' 1 1 demo_transient)))
     = Some (Inr \<lparr>r_success = True, r_balance = - 100001,
         r_transaction = Some \<lparr>t_id = 2, t_user_id = 1, t_symbol = ''AAPL'', t_type = ''SELL'',
           t_price = 1, t_quantity = - 200000, t_total_amount = - 200000,
           t_timestamp = ''t2''\<rparr>\<rparr>)
   \<and> balance_of 1
       (snd (executeTrade no_faults ''t2'' 1 ''AAPL'' ''SELL'' 1 (- 200000)
          (snd (executeTrade no_faults ''t1'' 1 ''AAPL'' ''BUY'' 1 1 demo_transient))))
     = Some (- 100001)
   \<and> balance_of 1
       (snd (executeTrade no_faults ''t2'' 1 ''AAPL'' ''SELL'' 1 (- 200000)
          (snd (executeTrade no_faults ''t1'' 1 ''AAPL'' ''BUY'' 1 1 demo_durable))))
     = Some (- 100001)"
  by (simp add: eval_defs)

section \<open>Positive holdings\<close>

lemma holdings_place:
  assumes "\<forall>k p. portfolios m k = Some p \<longrightarrow> 0 < p_quantity p"
    and "place ord m = (Inr r, m')"
    and "0 < o_quantity ord"
  shows "\<forall>k p. portfolios m' k = Some p \<longrightarrow> 0 < p_quantity p"
proof (intro allI impI)
  fix k p assume p: "portfolios m' k = Some p"
  show "0 < p_quantity p"
  proof (cases "k = key (o_userId ord) (o_symbol ord)")
    case False
    with place_other_keys [OF assms(2) False] p assms(1) show ?thesis
      by simp
  next
    case True
    show ?thesis
    proof (cases "portfolios m k")
      case None
      with True p assms(2,3) show ?thesis
        by (auto simp: place_def executeTrade_memory_def Let_def split: option.splits if_splits)
    next
      case (Some p0)
      with assms(1) have "0 < p_quantity p0" by simp
      with Some True p assms(2,3) show ?thesis
        by (auto simp: place_def executeTrade_memory_def Let_def split: option.splits if_splits)
    qed
  qed
qed

lemma holdings_commit_all:
  assumes "\<forall>k p. portfolios m k = Some p \<longrightarrow> 0 < p_quantity p"
    and "commit_all m ords = Some m'"
    and "\<forall>ord\<in>set ords. 0 < o_quantity ord"
  shows "\<forall>k p. portfolios m' k = Some p \<longrightarrow> 0 < p_quantity p"
  using assms
proof (induction ords arbitrary: m)
  case Nil
  then show ?case by simp
next
  case (Cons ord ords)
  from Cons.prems(2) obtain r m1 where c: "place ord m = (Inr r, m1)"
    and rest: "commit_all m1 ords = Some m'"
    by (auto split: prod.splits sum.splits)
  from Cons.prems(3) have "0 < o_quantity ord" by simp
  from holdings_place [OF Cons.prems(1) c this]
  have "\<forall>k p. portfolios m1 k = Some p \<longrightarrow> 0 < p_quantity p" .
  from Cons.IH [OF this rest] Cons.prems(3) show ?case
    by simp
qed

text \<open>
  C3. A committed purchase of quantity -5 leaves a portfolio entry of quantity -5, in both
  modes, and a committed purchase of quantity 0 leaves an entry of quantity 0 in transient
  mode.
\<close>

theorem nonpositive_position_is_stored:
  "position_of 1 ''AAPL''
     (snd (executeTrade no_faults ''t1'' 1 ''AAPL'' ''BUY'' 10 (- 5) demo_transient))
     = Some \<lparr>p_user_id = 1, p_symbol = ''AAPL'', p_quantity = - 5, p_average_price = Finite 10,
             p_updated_at = ''t1''\<rparr>
   \<and> position_of 1 ''AAPL''
       (snd (executeTrade no_faults ''t1'' 1 ''AAPL'' ''BUY'' 10 (- 5) demo_durable))
     = Some \<lparr>p_user_id = 1, p_symbol = ''AAPL'', p_quantity = - 5, p_average_price = Finite 10,
             p_updated_at = ''t1''\<rparr>
   \<and> position_of 1 ''AAPL''
       (snd (executeTrade no_faults ''t1'' 1 ''AAPL'' ''BUY'' 10 0 demo_transient))
     = Some \<lparr>p_user_id = 1, p_symbol = ''AAPL'', p_quantity = 0, p_average_price = NonFinite,
             p_updated_at = ''t1''\<rparr>
   \<and> fst (executeTrade no_faults ''t1'' 1 ''AAPL'' ''BUY'' 10 (- 5) demo_transient)
     = Some (Inr \<lparr>r_success = True, r_balance = 100050,
         r_transaction = Some \<lparr>t_id = 1, t_user_id = 1, t_symbol = ''AAPL'', t_type = ''BUY'',
           t_price = 10, t_quantity = - 5, t_total_amount = - 50, t_timestamp = ''t1''\<rparr>\<rparr>)"
  by (simp add: eval_defs)

section \<open>Replay: the two examples\<close>



section \<open>Accounts of the transient backend\<close>

text \<open>
  C10. The account that \<open>initMemoryData\<close> seeds and every account that \<open>createUser\<close>
  returns in transient mode start with the balance 100000.00; \<open>createUser\<close> gives the
  new account the id (current number of users) + 1 and appends it, and the seeded
  account has the id 1, which is that number on the empty store.
\<close>

theorem transient_accounts_start_with_100000:
  "users (initMemoryData passHash now m) = users m @ [last (users (initMemoryData passHash now m))]
   \<and> u_balance (last (users (initMemoryData passHash now m))) = 100000
   \<and> u_id (last (users (initMemoryData passHash now m))) = 1
   \<and> u_id (last (users (initMemoryData passHash now empty_store)))
       = length (users empty_store) + 1
   \<and> u_balance (fst (createUser_memory username hash now m)) = 100000
   \<and> u_id (fst (createUser_memory username hash now m)) = length (users m) + 1
   \<and> users (snd (createUser_memory username hash now m))
       = users m @ [fst (createUser_memory username hash now m)]"
  by (simp add: initMemoryData_def createUser_memory_def empty_store_def Let_def)

end
